theory Spec2Isabelle
  imports Main
begin

section \<open>The three entry points\<close>

text \<open>
  The repository has three entry-point files that register the same seven tools on
  three transports. Where their code differs, the model takes the entry point as an
  argument:
  \<^item> \<open>Sse\<close>: \<^verbatim>\<open>src/index.js\<close> (Server-Sent Events plus a POST endpoint),
  \<^item> \<open>Streamable\<close>: \<^verbatim>\<open>src/server.js\<close> (streamable HTTP),
  \<^item> \<open>Stdio\<close>: \<^verbatim>\<open>src/unnamed/part_000\<close> (standard streams).
\<close>

datatype variant = Sse | Streamable | Stdio

section \<open>JavaScript values\<close>

text \<open>
  The values the handlers see: what \<^verbatim>\<open>JSON.parse\<close> returns, plus \<^verbatim>\<open>undefined\<close>.
  An object is the list of its own properties in enumeration order (keys distinct).
  Numbers are the integers (a JSON number with a fraction or an exponent is outside the
  model). A string is its sequence of UTF-16 code units, one \<open>char\<close> each, so the
  model covers the strings whose code units are all below 256.
\<close>

datatype jsval =
    JUndefined
  | JNull
  | JBool bool
  | JNum int
  | JStr string
  | JArr "jsval list"
  | JObj "(string \<times> jsval) list"

text \<open>
  \<^verbatim>\<open>new Error(message)\<close>, and the \<^verbatim>\<open>TypeError\<close> the engine throws when a property is
  read from \<^verbatim>\<open>undefined\<close> or \<^verbatim>\<open>null\<close> or a non-function is called (it carries the
  property name).
\<close>

datatype error = Error string | TypeError string

definition and_then :: "error + 'a \<Rightarrow> ('a \<Rightarrow> error + 'b) \<Rightarrow> error + 'b" where
  "and_then r f = (case r of Inl e \<Rightarrow> Inl e | Inr x \<Rightarrow> f x)"

text \<open>Truthiness, as \<^verbatim>\<open>||\<close>, \<^verbatim>\<open>!\<close> and \<^verbatim>\<open>? :\<close> test it.\<close>

fun truthy :: "jsval \<Rightarrow> bool" where
  "truthy JUndefined = False"
| "truthy JNull = False"
| "truthy (JBool b) = b"
| "truthy (JNum n) = (n \<noteq> 0)"
| "truthy (JStr s) = (s \<noteq> [])"
| "truthy (JArr xs) = True"
| "truthy (JObj kvs) = True"

text \<open>\<^verbatim>\<open>a || b\<close>\<close>

definition js_or :: "jsval \<Rightarrow> jsval \<Rightarrow> jsval" where
  "js_or a b = (if truthy a then a else b)"

text \<open>
  \<^verbatim>\<open>x || d\<close> for an \<open>x\<close> that is a string or \<^verbatim>\<open>undefined\<close> (an environment variable,
  an optional tool argument) and a string \<open>d\<close>.
\<close>

definition or_default :: "string option \<Rightarrow> string \<Rightarrow> string" where
  "or_default x d = (case x of None \<Rightarrow> d | Some s \<Rightarrow> if s = [] then d else s)"

text \<open>
  \<^verbatim>\<open>x.k\<close> for the property names the handlers read (\<open>themes\<close>, \<open>assets\<close>, \<open>asset\<close>,
  \<open>theme\<close>, \<open>value\<close>, \<open>attachment\<close>, \<open>key\<close>, \<open>id\<close>, \<open>name\<close>, \<open>role\<close>, \<open>size\<close>,
  \<open>updated_at\<close>): none of them is inherited from a prototype, so a primitive or an
  array has none of them.
\<close>

fun get_prop :: "jsval \<Rightarrow> string \<Rightarrow> error + jsval" where
  "get_prop JUndefined k = Inl (TypeError k)"
| "get_prop JNull k = Inl (TypeError k)"
| "get_prop (JObj kvs) k = Inr (case map_of kvs k of None \<Rightarrow> JUndefined | Some x \<Rightarrow> x)"
| "get_prop (JBool b) k = Inr JUndefined"
| "get_prop (JNum n) k = Inr JUndefined"
| "get_prop (JStr s) k = Inr JUndefined"
| "get_prop (JArr xs) k = Inr JUndefined"

text \<open>\<^verbatim>\<open>x[0]\<close>: the first element of an array, the first code unit of a string.\<close>

fun get_index0 :: "jsval \<Rightarrow> error + jsval" where
  "get_index0 JUndefined = Inl (TypeError ''0'')"
| "get_index0 JNull = Inl (TypeError ''0'')"
| "get_index0 (JArr xs) = Inr (case xs of [] \<Rightarrow> JUndefined | x # _ \<Rightarrow> x)"
| "get_index0 (JStr s) = Inr (case s of [] \<Rightarrow> JUndefined | c # _ \<Rightarrow> JStr [c])"
| "get_index0 (JObj kvs) = Inr (case map_of kvs ''0'' of None \<Rightarrow> JUndefined | Some x \<Rightarrow> x)"
| "get_index0 (JBool b) = Inr JUndefined"
| "get_index0 (JNum n) = Inr JUndefined"

text \<open>
  \<^verbatim>\<open>a.map(f)\<close>: \<open>f\<close> on each element in order, the first exception wins; anything but
  an array has no callable \<open>map\<close>.
\<close>

fun map_res :: "('a \<Rightarrow> error + 'b) \<Rightarrow> 'a list \<Rightarrow> error + 'b list" where
  "map_res f [] = Inr []"
| "map_res f (x # xs) =
     (case f x of
        Inl e \<Rightarrow> Inl e
      | Inr y \<Rightarrow> (case map_res f xs of Inl e \<Rightarrow> Inl e | Inr ys \<Rightarrow> Inr (y # ys)))"

definition array_map :: "jsval \<Rightarrow> (jsval \<Rightarrow> error + jsval) \<Rightarrow> error + jsval" where
  "array_map a f =
     (case a of
        JArr xs \<Rightarrow> (case map_res f xs of Inl e \<Rightarrow> Inl e | Inr ys \<Rightarrow> Inr (JArr ys))
      | _ \<Rightarrow> Inl (TypeError ''map''))"

subsection \<open>Numbers and strings\<close>

fun show_nat :: "nat \<Rightarrow> string" where
  "show_nat n =
     (if n < 10 then [''0123456789'' ! n]
      else show_nat (n div 10) @ [''0123456789'' ! (n mod 10)])"

declare show_nat.simps [simp del]

definition show_int :: "int \<Rightarrow> string" where
  "show_int i = (if i < 0 then CHR ''-'' # show_nat (nat (- i)) else show_nat (nat i))"

fun join :: "string \<Rightarrow> string list \<Rightarrow> string" where
  "join sep [] = []"
| "join sep [x] = x"
| "join sep (x # y # ys) = x @ sep @ join sep (y # ys)"

text \<open>\<^verbatim>\<open>String(x)\<close>\<close>

fun to_String :: "jsval \<Rightarrow> string" where
  "to_String JUndefined = ''undefined''"
| "to_String JNull = ''null''"
| "to_String (JBool b) = (if b then ''true'' else ''false'')"
| "to_String (JNum n) = show_int n"
| "to_String (JStr s) = s"
| "to_String (JArr xs) =
     join '','' (map (\<lambda>x. case x of JUndefined \<Rightarrow> [] | JNull \<Rightarrow> [] | _ \<Rightarrow> to_String x) xs)"
| "to_String (JObj kvs) = ''[object Object]''"

subsection \<open>\<^verbatim>\<open>JSON.stringify\<close>\<close>

definition escape_char :: "char \<Rightarrow> string" where
  "escape_char c =
     (let n = (of_char c :: nat) in
      if c = CHR 0x22 then [CHR 0x5C, CHR 0x22]
      else if c = CHR 0x5C then [CHR 0x5C, CHR 0x5C]
      else if n = 8 then [CHR 0x5C, CHR ''b'']
      else if n = 9 then [CHR 0x5C, CHR ''t'']
      else if n = 10 then [CHR 0x5C, CHR ''n'']
      else if n = 12 then [CHR 0x5C, CHR ''f'']
      else if n = 13 then [CHR 0x5C, CHR ''r'']
      else if n < 32 then [CHR 0x5C, CHR ''u'', CHR ''0'', CHR ''0'',
                           ''0123456789abcdef'' ! (n div 16), ''0123456789abcdef'' ! (n mod 16)]
      else [c])"

definition quote :: "string \<Rightarrow> string" where
  "quote s = CHR 0x22 # concat (map escape_char s) @ [CHR 0x22]"

text \<open>
  The members of an array or object between their brackets: on one line when there is
  no gap, else one per line, indented.
\<close>

definition wrap :: "string \<Rightarrow> string \<Rightarrow> string \<Rightarrow> string \<Rightarrow> string list \<Rightarrow> string" where
  "wrap gap ind l r partial =
     (if partial = [] then l @ r
      else if gap = [] then l @ join '','' partial @ r
      else l @ [CHR 0x0A] @ (ind @ gap) @ join ('','' @ [CHR 0x0A] @ ind @ gap) partial
             @ [CHR 0x0A] @ ind @ r)"

text \<open>
  \<^verbatim>\<open>undefined\<close> has no JSON text: at the top level the result is \<^verbatim>\<open>undefined\<close>
  (\<open>None\<close>), in an array it is written \<open>null\<close>, in an object its property is left out.
\<close>

fun ser :: "string \<Rightarrow> string \<Rightarrow> jsval \<Rightarrow> string option" where
  "ser gap ind JUndefined = None"
| "ser gap ind JNull = Some ''null''"
| "ser gap ind (JBool b) = Some (if b then ''true'' else ''false'')"
| "ser gap ind (JNum n) = Some (show_int n)"
| "ser gap ind (JStr s) = Some (quote s)"
| "ser gap ind (JArr xs) =
     Some (wrap gap ind ''['' '']''
       (map (\<lambda>x. case ser gap (ind @ gap) x of None \<Rightarrow> ''null'' | Some s \<Rightarrow> s) xs))"
| "ser gap ind (JObj kvs) =
     Some (wrap gap ind ''{'' ''}''
       (concat (map (\<lambda>(k, x). case ser gap (ind @ gap) x of
                        None \<Rightarrow> []
                      | Some s \<Rightarrow> [quote k @ '':'' @ (if gap = [] then [] else '' '') @ s]) kvs)))"

text \<open>
  \<^verbatim>\<open>JSON.stringify(x, null, space)\<close>; \<open>space = 0\<close> is \<^verbatim>\<open>JSON.stringify(x)\<close>.
\<close>

definition JSON_stringify :: "nat \<Rightarrow> jsval \<Rightarrow> string option" where
  "JSON_stringify space x = ser (replicate (min space 10) CHR '' '') [] x"

text \<open>The \<open>text\<close> field of a content item: a string, or \<^verbatim>\<open>undefined\<close>.\<close>

definition text_of :: "string option \<Rightarrow> jsval" where
  "text_of s = (case s of None \<Rightarrow> JUndefined | Some t \<Rightarrow> JStr t)"

subsection \<open>\<^verbatim>\<open>encodeURIComponent\<close> and \<^verbatim>\<open>Buffer.byteLength\<close>\<close>

definition unreserved :: "char \<Rightarrow> bool" where
  "unreserved c =
     (c \<in> set (''ABCDEFGHIJKLMNOPQRSTUVWXYZabcdefghijklmnopqrstuvwxyz0123456789-_.!~*()''
               @ [CHR 0x27]))"

definition pct :: "nat \<Rightarrow> string" where
  "pct b = [CHR ''%'', ''0123456789ABCDEF'' ! (b div 16), ''0123456789ABCDEF'' ! (b mod 16)]"

text \<open>A code unit from 128 to 255 is two bytes in UTF-8.\<close>

definition encode_char :: "char \<Rightarrow> string" where
  "encode_char c =
     (let n = (of_char c :: nat) in
      if unreserved c then [c]
      else if n < 128 then pct n
      else pct (192 + n div 64) @ pct (128 + n mod 64))"

definition encodeURIComponent :: "string \<Rightarrow> string" where
  "encodeURIComponent s = concat (map encode_char s)"

definition Buffer_byteLength :: "string \<Rightarrow> nat" where
  "Buffer_byteLength s = sum_list (map (\<lambda>c. if (of_char c :: nat) < 128 then 1 else 2) s)"

section \<open>Configuration and start-up\<close>

type_synonym env = "string \<Rightarrow> string option"

text \<open>The module-level constants; \<open>TOKEN\<close> is \<^verbatim>\<open>undefined\<close> when the variable is unset.\<close>

record config =
  SHOP :: string
  TOKEN :: "string option"
  ACTIVE_THEME_ID :: string

definition API_VERSION :: string where
  "API_VERSION = ''2026-04''"

definition load_config :: "env \<Rightarrow> config" where
  "load_config env =
     \<lparr> SHOP = or_default (env ''SHOPIFY_SHOP'') ''ciro-jewelry.myshopify.com'',
       TOKEN = env ''SHOPIFY_ACCESS_TOKEN'',
       ACTIVE_THEME_ID = or_default (env ''SHOPIFY_ACTIVE_THEME_ID'') ''161795899724'' \<rparr>"

text \<open>What the process writes to standard error before it exits.\<close>

fun diagnostic :: "variant \<Rightarrow> string" where
  "diagnostic Sse =
     ''ERROR: SHOPIFY_ACCESS_TOKEN environment variable is required'' @ [CHR 0x0A]"
| "diagnostic Streamable = ''ERROR: SHOPIFY_ACCESS_TOKEN required'' @ [CHR 0x0A]"
| "diagnostic Stdio = ''ERROR: SHOPIFY_ACCESS_TOKEN required'' @ [CHR 0x0A]"

datatype startup = Exited string nat | Running config

text \<open>\<^verbatim>\<open>if (!TOKEN) { ...; process.exit(1); }\<close>\<close>

definition start :: "variant \<Rightarrow> env \<Rightarrow> startup" where
  "start v env =
     (let cfg = load_config env in
      if \<not> truthy (text_of (TOKEN cfg)) then Exited (diagnostic v) 1 else Running cfg)"

section \<open>The REST helper\<close>

text \<open>
  The options object given to \<^verbatim>\<open>https.request\<close>, and what \<^verbatim>\<open>req.write\<close> sent
  (\<open>written\<close>).
\<close>

record request =
  hostname :: string
  port :: nat
  path :: string
  req_method :: string
  headers :: "(string \<times> jsval) list"
  written :: "string option"

text \<open>
  What comes back from one \<^verbatim>\<open>https.request\<close>: an \<^verbatim>\<open>'error'\<close> event, or a response
  with its status code and the concatenation of its chunks. (The helper has no timeout:
  an upstream that sends neither leaves the promise pending. That is not a value here,
  and every statement below about an outcome says which answer came back.)
\<close>

datatype upstream = NetworkError string | Response nat string

text \<open>
  The parts of the runtime the helper calls: \<^verbatim>\<open>JSON.parse\<close> (\<open>None\<close> when it throws)
  and the network behind \<^verbatim>\<open>https.request\<close>.
\<close>

record runtime =
  JSON_parse :: "string \<Rightarrow> jsval option"
  https_request :: "request \<Rightarrow> upstream"

fun err_prefix :: "variant \<Rightarrow> string" where
  "err_prefix Sse = ''Shopify API ''"
| "err_prefix Streamable = ''Shopify ''"
| "err_prefix Stdio = ''Shopify ''"

definition request_options :: "config \<Rightarrow> string \<Rightarrow> string \<Rightarrow> jsval \<Rightarrow> request" where
  "request_options cfg meth rel_path body =
     (let bodyStr = (if truthy body then JSON_stringify 0 body else None) in
      \<lparr> hostname = SHOP cfg,
        port = 443,
        path = ''/admin/api/'' @ API_VERSION @ ''/'' @ rel_path,
        req_method = meth,
        headers =
          [(''X-Shopify-Access-Token'', text_of (TOKEN cfg)),
           (''Content-Type'', JStr ''application/json'')]
          @ (case bodyStr of
               None \<Rightarrow> []
             | Some s \<Rightarrow> if s \<noteq> [] then [(''Content-Length'', JNum (int (Buffer_byteLength s)))] else []),
        written = (case bodyStr of None \<Rightarrow> None | Some s \<Rightarrow> if s \<noteq> [] then Some s else None) \<rparr>)"

text \<open>
  One call: the requests issued, and the promise's outcome (\<open>Inl\<close> rejected, \<open>Inr\<close>
  resolved).
\<close>

definition shopifyRequest ::
  "variant \<Rightarrow> runtime \<Rightarrow> config \<Rightarrow> string \<Rightarrow> string \<Rightarrow> jsval \<Rightarrow> request list \<times> (error + jsval)" where
  "shopifyRequest v rt cfg meth rel_path body =
     (let options = request_options cfg meth rel_path body in
      ([options],
       case https_request rt options of
         NetworkError e \<Rightarrow> Inl (Error e)
       | Response statusCode data \<Rightarrow>
           if statusCode \<ge> 400
           then Inl (Error (err_prefix v @ show_nat statusCode @ '': '' @ data))
           else (case JSON_parse rt data of Some j \<Rightarrow> Inr j | None \<Rightarrow> Inr (JStr data))))"

section \<open>The seven tools\<close>

text \<open>
  A handler's outcome: the requests it issued, and either the exception it threw or the
  \<open>text\<close> of the single content item it returned.
\<close>

type_synonym tool_result = "request list \<times> (error + jsval)"

definition after :: "request list \<times> (error + jsval) \<Rightarrow> (jsval \<Rightarrow> error + jsval) \<Rightarrow> tool_result" where
  "after call k = (fst call, and_then (snd call) k)"

definition shopify_list_themes :: "variant \<Rightarrow> runtime \<Rightarrow> config \<Rightarrow> tool_result" where
  "shopify_list_themes v rt cfg =
     after (shopifyRequest v rt cfg ''GET'' ''themes.json'' JUndefined) (\<lambda>data.
       and_then (get_prop data ''themes'') (\<lambda>ts.
       and_then (array_map ts (\<lambda>t.
           and_then (get_prop t ''id'') (\<lambda>i.
           and_then (get_prop t ''name'') (\<lambda>n.
           and_then (get_prop t ''role'') (\<lambda>r.
             case v of
               Sse \<Rightarrow>
                 and_then (get_prop t ''updated_at'') (\<lambda>u.
                   Inr (JObj [(''id'', JStr (to_String i)), (''name'', n), (''role'', r),
                              (''updated_at'', u)]))
             | _ \<Rightarrow> Inr (JObj [(''id'', JStr (to_String i)), (''name'', n), (''role'', r)]))))))
         (\<lambda>themes. Inr (text_of (JSON_stringify 2 themes)))))"

definition shopify_get_active_theme :: "variant \<Rightarrow> runtime \<Rightarrow> config \<Rightarrow> tool_result" where
  "shopify_get_active_theme v rt cfg =
     after (shopifyRequest v rt cfg ''GET'' ''themes.json?role=main'' JUndefined) (\<lambda>data.
       and_then (get_prop data ''themes'') (\<lambda>ts.
       and_then (get_index0 ts) (\<lambda>t.
         Inr (text_of (JSON_stringify 2 (case v of Sse \<Rightarrow> js_or t JNull | _ \<Rightarrow> t))))))"

definition shopify_list_theme_files ::
  "variant \<Rightarrow> runtime \<Rightarrow> config \<Rightarrow> string option \<Rightarrow> tool_result" where
  "shopify_list_theme_files v rt cfg theme_id =
     after (shopifyRequest v rt cfg ''GET''
              (''themes/'' @ or_default theme_id (ACTIVE_THEME_ID cfg) @ ''/assets.json'') JUndefined)
       (\<lambda>data.
         and_then (get_prop data ''assets'') (\<lambda>as.
         and_then (array_map as (\<lambda>a.
             case v of
               Sse \<Rightarrow>
                 and_then (get_prop a ''key'') (\<lambda>k.
                 and_then (get_prop a ''size'') (\<lambda>s.
                 and_then (get_prop a ''updated_at'') (\<lambda>u.
                   Inr (JObj [(''key'', k), (''size'', s), (''updated_at'', u)]))))
             | _ \<Rightarrow> get_prop a ''key''))
           (\<lambda>files. Inr (text_of (JSON_stringify 2 files)))))"

definition shopify_read_file ::
  "variant \<Rightarrow> runtime \<Rightarrow> config \<Rightarrow> string \<Rightarrow> string option \<Rightarrow> tool_result" where
  "shopify_read_file v rt cfg key theme_id =
     after (shopifyRequest v rt cfg ''GET''
              (''themes/'' @ or_default theme_id (ACTIVE_THEME_ID cfg)
               @ ''/assets.json?asset[key]='' @ encodeURIComponent key) JUndefined)
       (\<lambda>data.
         and_then (get_prop data ''asset'') (\<lambda>a.
         and_then (get_prop a ''value'') (\<lambda>val.
           case v of
             Sse \<Rightarrow>
               if truthy val then Inr val
               else and_then (get_prop a ''attachment'') (\<lambda>att.
                      Inr (js_or att (JStr ''(binary or no content)'')))
           | _ \<Rightarrow> Inr (js_or val (JStr ''(binary)'')))))"

definition shopify_write_file ::
  "variant \<Rightarrow> runtime \<Rightarrow> config \<Rightarrow> string \<Rightarrow> string \<Rightarrow> string option \<Rightarrow> tool_result" where
  "shopify_write_file v rt cfg key val theme_id =
     after (shopifyRequest v rt cfg ''PUT''
              (''themes/'' @ or_default theme_id (ACTIVE_THEME_ID cfg) @ ''/assets.json'')
              (JObj [(''asset'', JObj [(''key'', JStr key), (''value'', JStr val)])]))
       (\<lambda>data.
         and_then (get_prop data ''asset'') (\<lambda>a.
         and_then (get_prop a ''key'') (\<lambda>k.
           case v of
             Sse \<Rightarrow>
               and_then (get_prop a ''updated_at'') (\<lambda>u.
                 Inr (text_of (JSON_stringify 2
                   (JObj [(''success'', JBool True), (''key'', k), (''updated_at'', u)]))))
           | Streamable \<Rightarrow>
               Inr (text_of (JSON_stringify 0 (JObj [(''success'', JBool True), (''key'', k)])))
           | Stdio \<Rightarrow>
               and_then (get_prop a ''updated_at'') (\<lambda>u.
                 Inr (text_of (JSON_stringify 0
                   (JObj [(''success'', JBool True), (''key'', k), (''updated_at'', u)])))))))"

text \<open>The body of the duplication request.\<close>

definition duplicate_body :: "config \<Rightarrow> string \<Rightarrow> string \<Rightarrow> jsval" where
  "duplicate_body cfg theme_id new_name =
     JObj [(''theme'', JObj
       [(''name'', JStr new_name),
        (''role'', JStr ''unpublished''),
        (''src'', JStr (''https://'' @ SHOP cfg @ ''/admin/themes/'' @ theme_id @ ''/duplicate''))])]"

definition shopify_duplicate_theme ::
  "variant \<Rightarrow> runtime \<Rightarrow> config \<Rightarrow> string \<Rightarrow> string \<Rightarrow> tool_result" where
  "shopify_duplicate_theme v rt cfg theme_id new_name =
     after (shopifyRequest v rt cfg ''POST'' ''themes.json'' (duplicate_body cfg theme_id new_name))
       (\<lambda>data.
         and_then (get_prop data ''theme'') (\<lambda>t.
         and_then (get_prop t ''id'') (\<lambda>i.
         and_then (get_prop t ''name'') (\<lambda>n.
           case v of
             Sse \<Rightarrow>
               Inr (text_of (JSON_stringify 2
                 (JObj [(''success'', JBool True),
                        (''new_theme'', JObj [(''id'', JStr (to_String i)), (''name'', n)])])))
           | _ \<Rightarrow>
               Inr (text_of (JSON_stringify 0
                 (JObj [(''success'', JBool True), (''id'', JStr (to_String i)), (''name'', n)])))))))"

definition shopify_get_theme_settings ::
  "variant \<Rightarrow> runtime \<Rightarrow> config \<Rightarrow> string option \<Rightarrow> tool_result" where
  "shopify_get_theme_settings v rt cfg theme_id =
     after (shopifyRequest v rt cfg ''GET''
              (''themes/'' @ or_default theme_id (ACTIVE_THEME_ID cfg)
               @ ''/assets.json?asset[key]=config%2Fsettings_data.json'') JUndefined)
       (\<lambda>data.
         and_then (get_prop data ''asset'') (\<lambda>a.
         and_then (get_prop a ''value'') (\<lambda>val.
           Inr (js_or val (JStr ''(empty)'')))))"

text \<open>
  A tool invocation, after the input schema has been checked: required arguments are
  strings, an optional \<open>theme_id\<close> is a string or absent.
\<close>

datatype tool_call =
    List_themes
  | Get_active_theme
  | List_theme_files "string option"
  | Read_file string "string option"
  | Write_file string string "string option"
  | Duplicate_theme string string
  | Get_theme_settings "string option"

fun call_tool :: "variant \<Rightarrow> runtime \<Rightarrow> config \<Rightarrow> tool_call \<Rightarrow> tool_result" where
  "call_tool v rt cfg List_themes = shopify_list_themes v rt cfg"
| "call_tool v rt cfg Get_active_theme = shopify_get_active_theme v rt cfg"
| "call_tool v rt cfg (List_theme_files theme_id) = shopify_list_theme_files v rt cfg theme_id"
| "call_tool v rt cfg (Read_file key theme_id) = shopify_read_file v rt cfg key theme_id"
| "call_tool v rt cfg (Write_file key val theme_id) = shopify_write_file v rt cfg key val theme_id"
| "call_tool v rt cfg (Duplicate_theme theme_id new_name) =
     shopify_duplicate_theme v rt cfg theme_id new_name"
| "call_tool v rt cfg (Get_theme_settings theme_id) = shopify_get_theme_settings v rt cfg theme_id"

section \<open>The process\<close>

text \<open>
  What a process does that the outside can see: a write to standard error, its exit, a
  request to the upstream API. The module's top level runs first; tools are served only
  if it did not exit.
\<close>

datatype effect = Stderr string | Exit nat | Outbound request

definition run :: "variant \<Rightarrow> runtime \<Rightarrow> env \<Rightarrow> tool_call list \<Rightarrow> effect list" where
  "run v rt env calls =
     (case start v env of
        Exited msg code \<Rightarrow> [Stderr msg, Exit code]
      | Running cfg \<Rightarrow> concat (map (\<lambda>c. map Outbound (fst (call_tool v rt cfg c))) calls))"

fun is_outbound :: "effect \<Rightarrow> bool" where
  "is_outbound (Outbound r) = True"
| "is_outbound _ = False"

section \<open>The HTTP server of the SSE entry point\<close>

text \<open>
  An \<^verbatim>\<open>SSEServerTransport\<close> with the session id the protocol library drew for it.
\<close>

datatype transport = SSEServerTransport string

fun sessionId :: "transport \<Rightarrow> string" where
  "sessionId (SSEServerTransport i) = i"

record http_request =
  http_method :: string
  url :: string

text \<open>
  \<^verbatim>\<open>const transports = {}\<close> is a plain object: reading \<^verbatim>\<open>transports[k]\<close> gives the
  own property \<open>k\<close> when there is one and otherwise what \<^verbatim>\<open>Object.prototype\<close> has
  under that name (a function, or the prototype itself for \<open>__proto__\<close>: truthy, and no
  transport). The own properties are the map; \<^verbatim>\<open>transports[k] = t\<close> adds one and
  \<^verbatim>\<open>delete transports[k]\<close> removes one (the session ids the library draws are UUIDs,
  never the name \<open>__proto__\<close>, whose assignment would not add a property).
\<close>

definition Object_prototype_names :: "string list" where
  "Object_prototype_names =
     [''constructor'', ''__proto__'', ''hasOwnProperty'', ''isPrototypeOf'',
      ''propertyIsEnumerable'', ''toLocaleString'', ''toString'', ''valueOf'',
      ''__defineGetter__'', ''__defineSetter__'', ''__lookupGetter__'', ''__lookupSetter__'']"

datatype slot = Own transport | Inherited | Missing

definition transports_get :: "(string \<Rightarrow> transport option) \<Rightarrow> string \<Rightarrow> slot" where
  "transports_get transports k =
     (case transports k of
        Some t \<Rightarrow> Own t
      | None \<Rightarrow> if k \<in> set Object_prototype_names then Inherited else Missing)"

text \<open>
  What the request handler did with a request: wrote a response (status and body), kept
  the response open as the event stream of a new transport, handed the request to a
  transport's \<^verbatim>\<open>handlePostMessage\<close>, or threw before writing anything.
\<close>

datatype outcome =
    Respond nat string
  | Stream transport
  | HandlePostMessage transport
  | Throw error

definition json_text :: "jsval \<Rightarrow> string" where
  "json_text x = (case JSON_stringify 0 x of None \<Rightarrow> [] | Some s \<Rightarrow> s)"

text \<open>
  The handler of \<^verbatim>\<open>http.createServer\<close> in \<^verbatim>\<open>src/index.js\<close>. Two things come from
  outside: \<open>sessionId_param\<close> is \<^verbatim>\<open>new URL(req.url, base).searchParams.get('sessionId')\<close>
  (\<open>None\<close> for \<^verbatim>\<open>null\<close>, which as a property name reads \<open>null\<close>), and \<open>new_id\<close> is the
  session id of the transport constructed when the request opens a stream.
\<close>

definition httpServer ::
  "(string \<Rightarrow> string option) \<Rightarrow> config \<Rightarrow> (string \<Rightarrow> transport option) \<Rightarrow> http_request \<Rightarrow> string
     \<Rightarrow> (string \<Rightarrow> transport option) \<times> outcome" where
  "httpServer sessionId_param cfg transports req new_id =
     (if http_method req = ''OPTIONS'' then (transports, Respond 200 [])
      else if http_method req = ''GET'' \<and> url req = ''/health'' then
        (transports,
         Respond 200 (json_text (JObj [(''status'', JStr ''ok''), (''service'', JStr ''shopify-mcp''),
                                       (''shop'', JStr (SHOP cfg))])))
      else if http_method req = ''GET'' \<and> url req = ''/sse'' then
        (let t = SSEServerTransport new_id in (transports(sessionId t \<mapsto> t), Stream t))
      else if http_method req = ''POST'' \<and> take (length ''/message'') (url req) = ''/message'' then
        (let k = (case sessionId_param (url req) of None \<Rightarrow> ''null'' | Some i \<Rightarrow> i) in
         case transports_get transports k of
           Missing \<Rightarrow>
             (transports, Respond 404 (json_text (JObj [(''error'', JStr ''Session not found'')])))
         | Own t \<Rightarrow> (transports, HandlePostMessage t)
         | Inherited \<Rightarrow> (transports, Throw (TypeError ''handlePostMessage'')))
      else (transports, Respond 404 (json_text (JObj [(''error'', JStr ''Not found'')]))))"

text \<open>
  The server over time: a request arrives (with the id a new transport would get), or
  the response of session \<open>i\<close> closes and its handler runs
  \<^verbatim>\<open>delete transports[transport.sessionId]\<close>.
\<close>

datatype event = Incoming http_request string | Closed string

fun serve ::
  "(string \<Rightarrow> string option) \<Rightarrow> config \<Rightarrow> (string \<Rightarrow> transport option) \<Rightarrow> event list
     \<Rightarrow> (string \<Rightarrow> transport option) \<times> outcome list" where
  "serve sessionId_param cfg transports [] = (transports, [])"
| "serve sessionId_param cfg transports (Incoming req new_id # es) =
     (let now = httpServer sessionId_param cfg transports req new_id;
          later = serve sessionId_param cfg (fst now) es
      in (fst later, snd now # snd later))"
| "serve sessionId_param cfg transports (Closed i # es) =
     serve sessionId_param cfg (transports(i := None)) es"

section \<open>Successful answers\<close>

text \<open>
  The JSON value in the upstream's answer to a request, when the answer has a status
  below 400 and a body that \<^verbatim>\<open>JSON.parse\<close> accepts.
\<close>

definition upstream_json :: "runtime \<Rightarrow> request \<Rightarrow> jsval option" where
  "upstream_json rt r =
     (case https_request rt r of
        NetworkError e \<Rightarrow> None
      | Response statusCode data \<Rightarrow> if statusCode \<ge> 400 then None else JSON_parse rt data)"

section \<open>Fixtures\<close>

text \<open>
  A configuration with only the access token set, and a mocked upstream that answers
  every request with one status and body, \<^verbatim>\<open>JSON.parse\<close> of that body being \<open>parsed\<close>.
\<close>

definition token_only :: env where
  "token_only = (\<lambda>k. if k = ''SHOPIFY_ACCESS_TOKEN'' then Some ''shpat_0123'' else None)"

definition fixture :: "nat \<Rightarrow> string \<Rightarrow> jsval option \<Rightarrow> runtime" where
  "fixture status raw parsed =
     \<lparr> JSON_parse = (\<lambda>s. if s = raw then parsed else None),
       https_request = (\<lambda>r. Response status raw) \<rparr>"

text \<open>The text and the value of a JSON fixture.\<close>

definition json_fixture :: "jsval \<Rightarrow> runtime" where
  "json_fixture x = fixture 200 (json_text x) (Some x)"

text \<open>Upstream answers: an asset without a value, one with a value, one with only an
  attachment, a created theme, and an empty list of themes.\<close>

definition asset_without_value :: jsval where
  "asset_without_value = JObj [(''asset'', JObj [(''key'', JStr ''assets/logo.png'')])]"

definition settings_asset :: jsval where
  "settings_asset =
     JObj [(''asset'', JObj [(''key'', JStr ''config/settings_data.json''), (''value'', JStr ''{}'')])]"

definition asset_with_attachment :: jsval where
  "asset_with_attachment =
     JObj [(''asset'', JObj [(''key'', JStr ''config/settings_data.json''),
                             (''attachment'', JStr ''e30='')])]"

definition created_theme :: jsval where
  "created_theme = JObj [(''theme'', JObj [(''id'', JNum 7), (''name'', JStr ''Backup'')])]"

definition no_themes :: jsval where
  "no_themes = JObj [(''themes'', JArr [])]"

section \<open>Basic facts\<close>

lemma fst_after [simp]: "fst (after c k) = fst c"
  by (simp add: after_def)

lemma snd_after [simp]: "snd (after c k) = and_then (snd c) k"
  by (simp add: after_def)

lemma fst_shopifyRequest [simp]:
  "fst (shopifyRequest v rt cfg meth rel_path body) = [request_options cfg meth rel_path body]"
  by (simp add: shopifyRequest_def Let_def)

lemma snd_shopifyRequest_Response:
  "https_request rt (request_options cfg meth rel_path body) = Response st data \<Longrightarrow>
   snd (shopifyRequest v rt cfg meth rel_path body) =
     (if st \<ge> 400 then Inl (Error (err_prefix v @ show_nat st @ '': '' @ data))
      else case JSON_parse rt data of Some j \<Rightarrow> Inr j | None \<Rightarrow> Inr (JStr data))"
  by (simp add: shopifyRequest_def Let_def)

lemma show_nat_nonempty: "show_nat n \<noteq> []"
  by (subst show_nat.simps) simp

lemma show_int_nonempty: "show_int i \<noteq> []"
  by (simp add: show_int_def show_nat_nonempty)

lemma wrap_nonempty: "l \<noteq> [] \<Longrightarrow> wrap gap ind l r partial \<noteq> []"
  by (simp add: wrap_def)

lemma ser_truthy: "truthy x \<Longrightarrow> \<exists>s. ser gap ind x = Some s \<and> s \<noteq> []"
  by (cases x) (simp_all add: show_int_nonempty quote_def wrap_nonempty)

lemma stringify_truthy: "truthy x \<Longrightarrow> \<exists>s. JSON_stringify 0 x = Some s \<and> s \<noteq> []"
  by (simp add: JSON_stringify_def ser_truthy)

lemma request_options_fields [simp]:
  "hostname (request_options cfg meth rel_path body) = SHOP cfg"
  "port (request_options cfg meth rel_path body) = 443"
  "path (request_options cfg meth rel_path body) = ''/admin/api/2026-04/'' @ rel_path"
  "req_method (request_options cfg meth rel_path body) = meth"
  by (simp_all add: request_options_def Let_def API_VERSION_def)

lemma request_options_no_body:
  "\<not> truthy body \<Longrightarrow>
   headers (request_options cfg meth rel_path body)
     = [(''X-Shopify-Access-Token'', text_of (TOKEN cfg)), (''Content-Type'', JStr ''application/json'')]
   \<and> written (request_options cfg meth rel_path body) = None"
  by (simp add: request_options_def)

lemma request_options_body:
  assumes "truthy body"
  shows "headers (request_options cfg meth rel_path body)
     = [(''X-Shopify-Access-Token'', text_of (TOKEN cfg)), (''Content-Type'', JStr ''application/json''),
        (''Content-Length'', JNum (int (Buffer_byteLength (json_text body))))]
   \<and> written (request_options cfg meth rel_path body) = JSON_stringify 0 body
   \<and> JSON_stringify 0 body \<noteq> None"
proof -
  obtain s where s: "JSON_stringify 0 body = Some s" "s \<noteq> []"
    using stringify_truthy [OF assms] by blast
  then show ?thesis
    using assms by (simp add: request_options_def json_text_def)
qed

lemma load_config_token_only:
  "load_config token_only =
     \<lparr> SHOP = ''ciro-jewelry.myshopify.com'', TOKEN = Some ''shpat_0123'',
       ACTIVE_THEME_ID = ''161795899724'' \<rparr>"
  by (simp add: load_config_def token_only_def or_default_def)

lemma show_nat_404: "show_nat 404 = ''404''"
  by (simp add: show_nat.simps)

section \<open>The REST helper: outcome of one call\<close>

text \<open>
  Claim C1. Whatever the method, path and body: the helper issues exactly one request
  (nothing is retried); when the upstream answers it with a status of 400 or more, the
  promise is rejected with an error whose message is the entry point's prefix, the status
  in decimal, a colon and the raw response body; when the status is below 400 it resolves
  with what \<^verbatim>\<open>JSON.parse\<close> makes of the body, or with the raw text when parsing throws.
\<close>

theorem shopifyRequest_response:
  assumes "https_request rt (request_options cfg meth rel_path body) = Response statusCode data"
  shows "fst (shopifyRequest v rt cfg meth rel_path body) = [request_options cfg meth rel_path body]
       \<and> (statusCode \<ge> 400 \<longrightarrow>
            snd (shopifyRequest v rt cfg meth rel_path body)
              = Inl (Error (err_prefix v @ show_nat statusCode @ '': '' @ data)))
       \<and> (statusCode < 400 \<longrightarrow>
            (\<forall>j. JSON_parse rt data = Some j \<longrightarrow>
                  snd (shopifyRequest v rt cfg meth rel_path body) = Inr j)
          \<and> (JSON_parse rt data = None \<longrightarrow>
               snd (shopifyRequest v rt cfg meth rel_path body) = Inr (JStr data)))"
  using assms by (simp add: snd_shopifyRequest_Response)

theorem shopifyRequest_response_witness:
  "snd (shopifyRequest Sse (fixture 404 ''Not Found'' None) (load_config token_only)
          ''GET'' ''themes.json'' JUndefined)
     = Inl (Error ''Shopify API 404: Not Found'')
   \<and> snd (shopifyRequest Stdio (fixture 200 ''[]'' (Some (JArr []))) (load_config token_only)
          ''GET'' ''themes.json'' JUndefined)
     = Inr (JArr [])
   \<and> snd (shopifyRequest Streamable (fixture 200 ''<html>'' None) (load_config token_only)
          ''GET'' ''themes.json'' JUndefined)
     = Inr (JStr ''<html>'')
   \<and> length (fst (shopifyRequest Sse (fixture 404 ''Not Found'' None) (load_config token_only)
                    ''GET'' ''themes.json'' JUndefined)) = 1"
proof -
  have a: "https_request (fixture 404 ''Not Found'' None)
             (request_options (load_config token_only) ''GET'' ''themes.json'' JUndefined)
           = Response 404 ''Not Found''"
    by (simp add: fixture_def)
  have b: "https_request (fixture 200 ''[]'' (Some (JArr [])))
             (request_options (load_config token_only) ''GET'' ''themes.json'' JUndefined)
           = Response 200 ''[]''"
    by (simp add: fixture_def)
  have c: "https_request (fixture 200 ''<html>'' None)
             (request_options (load_config token_only) ''GET'' ''themes.json'' JUndefined)
           = Response 200 ''<html>''"
    by (simp add: fixture_def)
  show ?thesis
    using shopifyRequest_response [OF a, of Sse] shopifyRequest_response [OF b, of Stdio]
      shopifyRequest_response [OF c, of Streamable]
    by (simp add: fixture_def show_nat_404 del: fst_shopifyRequest)
qed

section \<open>The REST helper: the request it builds\<close>

text \<open>
  Claim C8, as the code has it. The one request of a call goes to port 443 of the
  configured shop, path \<open>/admin/api/2026-04/\<close> followed by the relative path, with the
  given method; the \<open>X-Shopify-Access-Token\<close> header is the configured token; the
  \<open>Content-Type: application/json\<close> header is always there, with or without a body. What
  depends on the body is \<open>Content-Length\<close> and the write: both happen exactly when the
  body is truthy, with its JSON text.
\<close>

theorem request_shape:
  assumes "fst (shopifyRequest v rt cfg meth rel_path body) = [r]"
  shows "hostname r = SHOP cfg \<and> port r = 443
       \<and> path r = ''/admin/api/'' @ API_VERSION @ ''/'' @ rel_path
       \<and> req_method r = meth
       \<and> map_of (headers r) ''X-Shopify-Access-Token'' = Some (text_of (TOKEN cfg))
       \<and> map_of (headers r) ''Content-Type'' = Some (JStr ''application/json'')
       \<and> (truthy body \<longrightarrow>
            written r = JSON_stringify 0 body \<and> written r \<noteq> None
          \<and> map_of (headers r) ''Content-Length''
              = Some (JNum (int (Buffer_byteLength (json_text body)))))
       \<and> (\<not> truthy body \<longrightarrow> written r = None \<and> map_of (headers r) ''Content-Length'' = None)"
proof -
  have r: "r = request_options cfg meth rel_path body"
    using assms by simp
  show ?thesis
  proof (cases "truthy body")
    case True
    then show ?thesis
      using request_options_body [OF True, of cfg meth rel_path]
      by (simp add: r API_VERSION_def)
  next
    case False
    then show ?thesis
      using request_options_no_body [OF False, of cfg meth rel_path]
      by (simp add: r API_VERSION_def)
  qed
qed

theorem request_shape_witness:
  "written (request_options (load_config token_only) ''PUT'' ''themes/1/assets.json''
              (JObj [(''asset'', JNull)]))
     = Some (''{'' @ [CHR 0x22] @ ''asset'' @ [CHR 0x22] @ '':null}'')
   \<and> map_of (headers (request_options (load_config token_only) ''PUT'' ''themes/1/assets.json''
                        (JObj [(''asset'', JNull)]))) ''Content-Length''
     = Some (JNum 14)
   \<and> map_of (headers (request_options (load_config token_only) ''PUT'' ''themes/1/assets.json''
                        (JObj [(''asset'', JNull)]))) ''X-Shopify-Access-Token''
     = Some (JStr ''shpat_0123'')
   \<and> path (request_options (load_config token_only) ''PUT'' ''themes/1/assets.json''
             (JObj [(''asset'', JNull)]))
     = ''/admin/api/2026-04/themes/1/assets.json''"
proof -
  have a: "fst (shopifyRequest Sse (fixture 200 ''{}'' (Some (JObj []))) (load_config token_only)
                  ''PUT'' ''themes/1/assets.json'' (JObj [(''asset'', JNull)]))
           = [request_options (load_config token_only) ''PUT'' ''themes/1/assets.json''
                (JObj [(''asset'', JNull)])]"
    by simp
  have t: "JSON_stringify 0 (JObj [(''asset'', JNull)])
           = Some (''{'' @ [CHR 0x22] @ ''asset'' @ [CHR 0x22] @ '':null}'')"
    by (simp add: JSON_stringify_def wrap_def quote_def escape_char_def)
  show ?thesis
    using request_shape [OF a]
    by (simp add: t json_text_def Buffer_byteLength_def load_config_token_only text_of_def
        API_VERSION_def del: request_options_fields)
qed

text \<open>
  A call without a body (\<^verbatim>\<open>shopifyRequest('GET', 'themes.json')\<close>) still sends the
  \<open>Content-Type\<close> header: it is not tied to the presence of a body.
\<close>

theorem content_type_without_body_counterexample:
  "fst (shopifyRequest Sse (fixture 200 ''{}'' (Some (JObj []))) (load_config token_only)
          ''GET'' ''themes.json'' JUndefined)
     = [\<lparr> hostname = ''ciro-jewelry.myshopify.com'', port = 443,
          path = ''/admin/api/2026-04/themes.json'', req_method = ''GET'',
          headers = [(''X-Shopify-Access-Token'', JStr ''shpat_0123''),
                     (''Content-Type'', JStr ''application/json'')],
          written = None \<rparr>]"
  by (simp add: request_options_def load_config_token_only text_of_def API_VERSION_def)

section \<open>Default theme id\<close>

text \<open>
  Claim C5. When \<open>theme_id\<close> is omitted, each of the four tools that take it puts the
  configured default id (\<open>ACTIVE_THEME_ID\<close>: the environment's, else the built-in one) in
  the request path; \<open>list_theme_files\<close> then issues a GET to
  \<open>themes/{ACTIVE_THEME_ID}/assets.json\<close> under the API prefix.
\<close>

theorem default_theme_id:
  "map req_method (fst (shopify_list_theme_files v rt cfg None)) = [''GET'']
   \<and> map path (fst (shopify_list_theme_files v rt cfg None))
       = [''/admin/api/2026-04/themes/'' @ ACTIVE_THEME_ID cfg @ ''/assets.json'']
   \<and> map path (fst (shopify_read_file v rt cfg key None))
       = [''/admin/api/2026-04/themes/'' @ ACTIVE_THEME_ID cfg @ ''/assets.json?asset[key]=''
          @ encodeURIComponent key]
   \<and> map path (fst (shopify_write_file v rt cfg key val None))
       = [''/admin/api/2026-04/themes/'' @ ACTIVE_THEME_ID cfg @ ''/assets.json'']
   \<and> map path (fst (shopify_get_theme_settings v rt cfg None))
       = [''/admin/api/2026-04/themes/'' @ ACTIVE_THEME_ID cfg
          @ ''/assets.json?asset[key]=config%2Fsettings_data.json'']
   \<and> ACTIVE_THEME_ID (load_config env)
       = or_default (env ''SHOPIFY_ACTIVE_THEME_ID'') ''161795899724''"
  by (simp add: shopify_list_theme_files_def shopify_read_file_def shopify_write_file_def
      shopify_get_theme_settings_def or_default_def load_config_def)

theorem default_theme_id_witness:
  "map path (fst (shopify_list_theme_files Stdio (fixture 200 ''{}'' (Some (JObj []))) (load_config token_only) None))
       = [''/admin/api/2026-04/themes/161795899724/assets.json'']
   \<and> map req_method (fst (shopify_list_theme_files Stdio (fixture 200 ''{}'' (Some (JObj []))) (load_config token_only) None))
       = [''GET'']"
  using default_theme_id [of Stdio "fixture 200 ''{}'' (Some (JObj []))" "load_config token_only"]
  by (simp add: load_config_token_only)

section \<open>Start-up\<close>

lemma start_no_token:
  "env ''SHOPIFY_ACCESS_TOKEN'' = None \<Longrightarrow> start v env = Exited (diagnostic v) 1"
  by (simp add: start_def load_config_def text_of_def)

lemma start_with_token:
  "env ''SHOPIFY_ACCESS_TOKEN'' = Some tok \<Longrightarrow> tok \<noteq> [] \<Longrightarrow> start v env = Running (load_config env)"
  by (simp add: start_def load_config_def text_of_def)

lemma diagnostic_nonempty: "diagnostic v \<noteq> []"
  by (cases v) simp_all

text \<open>
  Claim C7. When the access-token variable is absent, every entry point writes its
  diagnostic to standard error and exits with status 1; that is all the process does,
  whatever tool calls were to come: no request goes out.
\<close>

theorem missing_token_exits:
  assumes "env ''SHOPIFY_ACCESS_TOKEN'' = None"
  shows "start v env = Exited (diagnostic v) 1
       \<and> run v rt env calls = [Stderr (diagnostic v), Exit 1]
       \<and> diagnostic v \<noteq> []
       \<and> \<not> list_ex is_outbound (run v rt env calls)"
  using assms by (simp add: run_def start_no_token diagnostic_nonempty)

theorem missing_token_exits_witness:
  "run Sse (fixture 200 ''{}'' (Some (JObj []))) (\<lambda>k. None) [List_themes, Get_active_theme]
     = [Stderr (''ERROR: SHOPIFY_ACCESS_TOKEN environment variable is required'' @ [CHR 0x0A]), Exit 1]
   \<and> run Stdio (fixture 200 ''{}'' (Some (JObj []))) (\<lambda>k. None) [List_themes]
     = [Stderr (''ERROR: SHOPIFY_ACCESS_TOKEN required'' @ [CHR 0x0A]), Exit 1]"
proof -
  have a: "(\<lambda>k::string. None :: string option) ''SHOPIFY_ACCESS_TOKEN'' = None"
    by simp
  show ?thesis
    using missing_token_exits [OF a, of Sse "fixture 200 ''{}'' (Some (JObj []))" "[List_themes, Get_active_theme]"]
      missing_token_exits [OF a, of Stdio "fixture 200 ''{}'' (Some (JObj []))" "[List_themes]"]
    by simp
qed

lemma or_default_nonempty: "d \<noteq> [] \<Longrightarrow> or_default x d \<noteq> []"
  by (simp add: or_default_def split: option.splits)

lemma call_tool_hostname:
  "r \<in> set (fst (call_tool v rt cfg call)) \<Longrightarrow> hostname r = SHOP cfg"
  by (cases call)
     (simp_all add: shopify_list_themes_def shopify_get_active_theme_def
        shopify_list_theme_files_def shopify_read_file_def shopify_write_file_def
        shopify_duplicate_theme_def shopify_get_theme_settings_def)

lemma call_tool_one_request: "length (fst (call_tool v rt cfg call)) = 1"
  by (cases call)
     (simp_all add: shopify_list_themes_def shopify_get_active_theme_def
        shopify_list_theme_files_def shopify_read_file_def shopify_write_file_def
        shopify_duplicate_theme_def shopify_get_theme_settings_def)

text \<open>
  Claim C10. An absent shop or theme-id variable is replaced by the built-in constant
  and does not stop the process, which starts whenever the token is a non-empty string;
  an absent token has no replacement. So the configured shop and default theme id are
  never empty, and every request of every tool call goes to that non-empty hostname.
\<close>

theorem config_fallbacks:
  "(env ''SHOPIFY_SHOP'' = None \<longrightarrow> SHOP (load_config env) = ''ciro-jewelry.myshopify.com'')
   \<and> (env ''SHOPIFY_ACTIVE_THEME_ID'' = None \<longrightarrow> ACTIVE_THEME_ID (load_config env) = ''161795899724'')
   \<and> (env ''SHOPIFY_ACCESS_TOKEN'' = None \<longrightarrow>
        TOKEN (load_config env) = None \<and> start v env = Exited (diagnostic v) 1)
   \<and> (\<forall>tok. env ''SHOPIFY_ACCESS_TOKEN'' = Some tok \<and> tok \<noteq> [] \<longrightarrow>
        start v env = Running (load_config env))
   \<and> SHOP (load_config env) \<noteq> []
   \<and> ACTIVE_THEME_ID (load_config env) \<noteq> []
   \<and> (\<forall>cfg call r. start v env = Running cfg \<and> r \<in> set (fst (call_tool v rt cfg call)) \<longrightarrow>
        hostname r = SHOP (load_config env) \<and> hostname r \<noteq> [] \<and> ACTIVE_THEME_ID cfg \<noteq> [])"
proof -
  have a: "SHOP (load_config env) \<noteq> []" "ACTIVE_THEME_ID (load_config env) \<noteq> []"
    by (simp_all add: load_config_def or_default_nonempty)
  have b: "start v env = Running cfg \<Longrightarrow> cfg = load_config env" for cfg
    by (simp add: start_def Let_def split: if_splits)
  have c: "env ''SHOPIFY_SHOP'' = None \<longrightarrow> SHOP (load_config env) = ''ciro-jewelry.myshopify.com''"
    by (simp add: load_config_def or_default_def)
  have d: "env ''SHOPIFY_ACTIVE_THEME_ID'' = None \<longrightarrow> ACTIVE_THEME_ID (load_config env) = ''161795899724''"
    by (simp add: load_config_def or_default_def)
  have e: "env ''SHOPIFY_ACCESS_TOKEN'' = None \<longrightarrow>
        TOKEN (load_config env) = None \<and> start v env = Exited (diagnostic v) 1"
    by (simp add: start_no_token) (simp add: load_config_def)
  have f: "\<forall>tok. env ''SHOPIFY_ACCESS_TOKEN'' = Some tok \<and> tok \<noteq> [] \<longrightarrow>
        start v env = Running (load_config env)"
    by (simp add: start_with_token)
  have g: "\<forall>cfg call r. start v env = Running cfg \<and> r \<in> set (fst (call_tool v rt cfg call)) \<longrightarrow>
        hostname r = SHOP (load_config env) \<and> hostname r \<noteq> [] \<and> ACTIVE_THEME_ID cfg \<noteq> []"
    using a b call_tool_hostname by metis
  show ?thesis
    using a c d e f g by blast
qed

theorem config_fallbacks_witness:
  "start Streamable token_only
     = Running \<lparr> SHOP = ''ciro-jewelry.myshopify.com'', TOKEN = Some ''shpat_0123'',
                 ACTIVE_THEME_ID = ''161795899724'' \<rparr>
   \<and> map hostname (fst (call_tool Streamable (fixture 200 ''{}'' (Some (JObj []))) (load_config token_only) List_themes))
     = [''ciro-jewelry.myshopify.com'']"
  using config_fallbacks [of token_only Streamable "fixture 200 ''{}'' (Some (JObj []))"]
  by (simp add: token_only_def load_config_def or_default_def shopify_list_themes_def)

section \<open>Tool results\<close>

lemma snd_shopifyRequest_json:
  "upstream_json rt (request_options cfg meth rel_path body) = Some d \<Longrightarrow>
   snd (shopifyRequest v rt cfg meth rel_path body) = Inr d"
  by (auto simp: upstream_json_def shopifyRequest_def Let_def split: upstream.splits if_splits)

lemma shopifyRequest_resolved:
  "snd (shopifyRequest v rt cfg meth rel_path body) = Inr d \<Longrightarrow>
   upstream_json rt (request_options cfg meth rel_path body) = Some d \<or> (\<exists>s. d = JStr s)"
  by (auto simp: shopifyRequest_def upstream_json_def Let_def
      split: upstream.splits if_splits option.splits)

lemma and_then_Inr [simp]: "and_then (Inr x) f = f x"
  by (simp add: and_then_def)

lemma and_then_Inl [simp]: "and_then (Inl e) f = Inl e"
  by (simp add: and_then_def)

lemma upstream_json_fixture [simp]: "upstream_json (json_fixture x) r = Some x"
  by (simp add: upstream_json_def json_fixture_def fixture_def)

lemma encode_settings_key:
  "encodeURIComponent ''config/settings_data.json'' = ''config%2Fsettings_data.json''"
  by (simp add: encodeURIComponent_def encode_char_def unreserved_def pct_def)

lemma get_prop_attachment:
  "get_prop a ''value'' = Inr x \<Longrightarrow> \<exists>att. get_prop a ''attachment'' = Inr att"
  by (cases a) simp_all

subsection \<open>Placeholders\<close>

lemma read_file_no_text:
  assumes "fst (shopify_read_file v rt cfg key tid) = [r]" "upstream_json rt r = Some d"
    "get_prop d ''asset'' = Inr a" "get_prop a ''value'' = Inr x" "\<not> truthy x"
  shows "snd (shopify_read_file v rt cfg key tid) =
     (case v of
        Sse \<Rightarrow> and_then (get_prop a ''attachment'') (\<lambda>att. Inr (js_or att (JStr ''(binary or no content)'')))
      | _ \<Rightarrow> Inr (JStr ''(binary)''))"
  using assms
  by (cases v) (auto simp: shopify_read_file_def snd_shopifyRequest_json js_or_def)

lemma settings_no_text:
  assumes "fst (shopify_get_theme_settings v rt cfg tid) = [r]" "upstream_json rt r = Some d"
    "get_prop d ''asset'' = Inr a" "get_prop a ''value'' = Inr x" "\<not> truthy x"
  shows "snd (shopify_get_theme_settings v rt cfg tid) = Inr (JStr ''(empty)'')"
  using assms
  by (auto simp: shopify_get_theme_settings_def snd_shopifyRequest_json js_or_def)

text \<open>
  Claim C2, as the code has it. Take a successful upstream answer whose asset has no
  truthy \<open>value\<close> (absent, \<open>null\<close>, the empty string, \<open>false\<close>, \<open>0\<close>). Then \<open>get_theme_settings\<close> returns
  \<open>(empty)\<close> at every entry point, and \<open>read_file\<close> returns \<open>(binary)\<close> at the stdio and
  streamable-HTTP entry points; at the SSE entry point \<open>read_file\<close> returns the asset's
  \<open>attachment\<close> when that is truthy and \<open>(binary or no content)\<close> otherwise.
\<close>

theorem placeholders_without_text:
  assumes "fst (shopify_read_file v rt cfg key tid) = [r]" "upstream_json rt r = Some d"
    "get_prop d ''asset'' = Inr a" "get_prop a ''value'' = Inr x" "\<not> truthy x"
    and "fst (shopify_get_theme_settings v rt cfg tid') = [r']" "upstream_json rt r' = Some d'"
    "get_prop d' ''asset'' = Inr a'" "get_prop a' ''value'' = Inr x'" "\<not> truthy x'"
  shows "snd (shopify_get_theme_settings v rt cfg tid') = Inr (JStr ''(empty)'')
       \<and> (v \<noteq> Sse \<longrightarrow> snd (shopify_read_file v rt cfg key tid) = Inr (JStr ''(binary)''))
       \<and> (v = Sse \<longrightarrow> (\<forall>att. get_prop a ''attachment'' = Inr att \<longrightarrow>
             snd (shopify_read_file v rt cfg key tid)
               = Inr (js_or att (JStr ''(binary or no content)''))))"
  using read_file_no_text [OF assms(1-5)] settings_no_text [OF assms(6-10)]
  by (cases v) auto

theorem placeholders_without_text_witness:
  "snd (shopify_get_theme_settings Stdio (json_fixture asset_without_value)
          (load_config token_only) None)
     = Inr (JStr ''(empty)'')
   \<and> snd (shopify_read_file Stdio (json_fixture asset_without_value)
          (load_config token_only) ''assets/logo.png'' None)
     = Inr (JStr ''(binary)'')"
proof -
  have r1: "fst (shopify_read_file Stdio (json_fixture asset_without_value)
                   (load_config token_only) ''assets/logo.png'' None)
            = [request_options (load_config token_only) ''GET''
                 (''themes/161795899724/assets.json?asset[key]='' @ encodeURIComponent ''assets/logo.png'')
                 JUndefined]"
    by (simp add: shopify_read_file_def load_config_token_only or_default_def)
  have r2: "fst (shopify_get_theme_settings Stdio (json_fixture asset_without_value)
                   (load_config token_only) None)
            = [request_options (load_config token_only) ''GET''
                 ''themes/161795899724/assets.json?asset[key]=config%2Fsettings_data.json''
                 JUndefined]"
    by (simp add: shopify_get_theme_settings_def load_config_token_only or_default_def)
  have u: "upstream_json (json_fixture asset_without_value) r = Some asset_without_value" for r
    by simp
  have a: "get_prop asset_without_value ''asset'' = Inr (JObj [(''key'', JStr ''assets/logo.png'')])"
    by (simp add: asset_without_value_def)
  have x: "get_prop (JObj [(''key'', JStr ''assets/logo.png'')]) ''value'' = Inr JUndefined"
    by simp
  have f: "\<not> truthy JUndefined"
    by simp
  show ?thesis
    using placeholders_without_text [OF r1 u a x f r2 u a x f]
    by simp
qed

text \<open>
  At the SSE entry point an asset with neither value nor attachment reads as
  \<open>(binary or no content)\<close>, not \<open>(binary)\<close>.
\<close>

theorem read_file_placeholder_sse_counterexample:
  "snd (shopify_read_file Sse (json_fixture asset_without_value) (load_config token_only)
          ''assets/logo.png'' None)
     = Inr (JStr ''(binary or no content)'')
   \<and> snd (shopify_read_file Sse (json_fixture asset_without_value) (load_config token_only)
          ''assets/logo.png'' None)
     \<noteq> Inr (JStr ''(binary)'')"
  by (simp add: shopify_read_file_def snd_shopifyRequest_json js_or_def asset_without_value_def)

subsection \<open>Settings and \<open>read_file\<close>\<close>

lemma settings_request:
  "fst (shopify_get_theme_settings v rt cfg tid)
     = fst (shopify_read_file v rt cfg ''config/settings_data.json'' tid)"
  by (simp add: shopify_get_theme_settings_def shopify_read_file_def encode_settings_key)

text \<open>
  Claim C9, as the code has it. At every entry point \<open>get_theme_settings\<close> issues the
  very request that \<open>read_file\<close> issues for the key \<open>config/settings_data.json\<close> and the
  same \<open>theme_id\<close>, and the two return the same outcome unless \<open>get_theme_settings\<close>
  returns its placeholder \<open>(empty)\<close>. There \<open>read_file\<close> returns \<open>(binary)\<close> at the
  stdio and streamable-HTTP entry points; at the SSE entry point it returns
  \<open>(binary or no content)\<close> or, when the asset has a truthy attachment, that attachment.
\<close>

theorem settings_agrees_with_read_file:
  assumes "fst (shopify_get_theme_settings v rt cfg tid) = [r]"
  shows "fst (shopify_read_file v rt cfg ''config/settings_data.json'' tid) = [r]
       \<and> (snd (shopify_read_file v rt cfg ''config/settings_data.json'' tid)
            = snd (shopify_get_theme_settings v rt cfg tid)
          \<or> snd (shopify_get_theme_settings v rt cfg tid) = Inr (JStr ''(empty)'')
            \<and> (v \<noteq> Sse \<longrightarrow>
                 snd (shopify_read_file v rt cfg ''config/settings_data.json'' tid)
                   = Inr (JStr ''(binary)''))
            \<and> (v = Sse \<longrightarrow>
                 snd (shopify_read_file v rt cfg ''config/settings_data.json'' tid)
                   = Inr (JStr ''(binary or no content)'')
               \<or> (\<exists>d a att. upstream_json rt r = Some d \<and> get_prop d ''asset'' = Inr a
                      \<and> get_prop a ''attachment'' = Inr att \<and> truthy att
                      \<and> snd (shopify_read_file v rt cfg ''config/settings_data.json'' tid) = Inr att)))"
proof -
  define p where "p = ''themes/'' @ or_default tid (ACTIVE_THEME_ID cfg)
              @ ''/assets.json?asset[key]=config%2Fsettings_data.json''"
  define R where "R = snd (shopifyRequest v rt cfg ''GET'' p JUndefined)"
  define rd where "rd = snd (shopify_read_file v rt cfg ''config/settings_data.json'' tid)"
  define st where "st = snd (shopify_get_theme_settings v rt cfg tid)"
  have r: "r = request_options cfg ''GET'' p JUndefined"
    using assms by (simp add: shopify_get_theme_settings_def p_def)
  have req: "fst (shopify_read_file v rt cfg ''config/settings_data.json'' tid) = [r]"
    using assms settings_request [of v rt cfg tid] by simp
  have S: "st = and_then R (\<lambda>data.
         and_then (get_prop data ''asset'') (\<lambda>a.
         and_then (get_prop a ''value'') (\<lambda>val. Inr (js_or val (JStr ''(empty)'')))))"
    by (simp add: st_def R_def p_def shopify_get_theme_settings_def)
  have Rd: "rd = and_then R (\<lambda>data.
         and_then (get_prop data ''asset'') (\<lambda>a.
         and_then (get_prop a ''value'') (\<lambda>val.
           case v of
             Sse \<Rightarrow>
               if truthy val then Inr val
               else and_then (get_prop a ''attachment'') (\<lambda>att.
                      Inr (js_or att (JStr ''(binary or no content)'')))
           | _ \<Rightarrow> Inr (js_or val (JStr ''(binary)'')))))"
    by (simp add: rd_def R_def p_def shopify_read_file_def encode_settings_key)
  have rest: "rd = st
          \<or> st = Inr (JStr ''(empty)'')
            \<and> (v \<noteq> Sse \<longrightarrow> rd = Inr (JStr ''(binary)''))
            \<and> (v = Sse \<longrightarrow> rd = Inr (JStr ''(binary or no content)'')
               \<or> (\<exists>d a att. upstream_json rt r = Some d \<and> get_prop d ''asset'' = Inr a
                      \<and> get_prop a ''attachment'' = Inr att \<and> truthy att \<and> rd = Inr att))"
  proof (cases R)
    case (Inl e)
    then show ?thesis by (simp add: S Rd)
  next
    case (Inr d)
    show ?thesis
    proof (cases "get_prop d ''asset''")
      case (Inl e)
      then show ?thesis by (simp add: S Rd Inr)
    next
      case a: (Inr a)
      show ?thesis
      proof (cases "get_prop a ''value''")
        case (Inl e)
        then show ?thesis by (simp add: S Rd Inr a)
      next
        case val: (Inr val)
        show ?thesis
        proof (cases "truthy val")
          case True
          then show ?thesis
            by (cases v) (simp_all add: S Rd Inr a val js_or_def)
        next
          case False
          obtain att where att: "get_prop a ''attachment'' = Inr att"
            using get_prop_attachment [OF val] by blast
          have "\<not> (\<exists>s. d = JStr s)"
            using a val by auto
          then have up: "upstream_json rt r = Some d"
            using shopifyRequest_resolved [of v rt cfg "''GET''" p JUndefined d] Inr
            by (simp add: r R_def)
          have s: "st = Inr (JStr ''(empty)'')"
            using False by (simp add: S Inr a val js_or_def)
          show ?thesis
          proof (cases v)
            case Sse
            have "rd = Inr (js_or att (JStr ''(binary or no content)''))"
              using False by (simp add: Rd Inr a val att Sse)
            then show ?thesis
              using s up a att Sse by (auto simp: js_or_def)
          next
            case Streamable
            then show ?thesis
              using False s by (simp add: Rd Inr a val js_or_def)
          next
            case Stdio
            then show ?thesis
              using False s by (simp add: Rd Inr a val js_or_def)
          qed
        qed
      qed
    qed
  qed
  show ?thesis
    using req rest unfolding rd_def st_def by blast
qed

theorem settings_agrees_with_read_file_witness:
  "map path (fst (shopify_read_file Streamable (json_fixture settings_asset)
        (load_config token_only) ''config/settings_data.json'' (Some ''42'')))
     = [''/admin/api/2026-04/themes/42/assets.json?asset[key]=config%2Fsettings_data.json'']
   \<and> snd (shopify_get_theme_settings Streamable (json_fixture settings_asset)
        (load_config token_only) (Some ''42'')) = Inr (JStr ''{}'')
   \<and> snd (shopify_read_file Streamable (json_fixture settings_asset)
        (load_config token_only) ''config/settings_data.json'' (Some ''42'')) = Inr (JStr ''{}'')"
proof -
  have r: "fst (shopify_get_theme_settings Streamable (json_fixture settings_asset)
                  (load_config token_only) (Some ''42''))
           = [request_options (load_config token_only) ''GET''
                ''themes/42/assets.json?asset[key]=config%2Fsettings_data.json'' JUndefined]"
    by (simp add: shopify_get_theme_settings_def or_default_def)
  have s: "snd (shopify_get_theme_settings Streamable (json_fixture settings_asset)
                  (load_config token_only) (Some ''42'')) = Inr (JStr ''{}'')"
    by (simp add: shopify_get_theme_settings_def snd_shopifyRequest_json js_or_def
        settings_asset_def)
  show ?thesis
    using settings_agrees_with_read_file [OF r] s
    by simp
qed

text \<open>
  At the SSE entry point the two tools differ by more than a placeholder: for an asset
  with an attachment and no value, \<open>read_file\<close> returns the attachment.
\<close>

theorem read_file_attachment_counterexample:
  "snd (shopify_read_file Sse (json_fixture asset_with_attachment) (load_config token_only)
          ''config/settings_data.json'' None) = Inr (JStr ''e30='')
   \<and> snd (shopify_get_theme_settings Sse (json_fixture asset_with_attachment)
          (load_config token_only) None) = Inr (JStr ''(empty)'')
   \<and> snd (shopify_read_file Sse (json_fixture asset_with_attachment) (load_config token_only)
          ''config/settings_data.json'' None) \<noteq> Inr (JStr ''(binary)'')
   \<and> snd (shopify_read_file Sse (json_fixture asset_with_attachment) (load_config token_only)
          ''config/settings_data.json'' None) \<noteq> Inr (JStr ''(binary or no content)'')"
  by (simp add: shopify_get_theme_settings_def shopify_read_file_def
      snd_shopifyRequest_json js_or_def asset_with_attachment_def)

subsection \<open>The active theme\<close>

lemma get_active_theme_resolved:
  assumes "upstream_json rt (request_options cfg ''GET'' ''themes.json?role=main'' JUndefined) = Some d"
    "get_prop d ''themes'' = Inr (JArr ts)"
  shows "snd (shopify_get_active_theme v rt cfg) =
     Inr (text_of (JSON_stringify 2
       (case v of
          Sse \<Rightarrow> js_or (case ts of [] \<Rightarrow> JUndefined | t # _ \<Rightarrow> t) JNull
        | _ \<Rightarrow> (case ts of [] \<Rightarrow> JUndefined | t # _ \<Rightarrow> t))))"
  using assms
  by (cases v) (simp_all add: shopify_get_active_theme_def snd_shopifyRequest_json)

lemma get_active_theme_first:
  assumes "upstream_json rt (request_options cfg ''GET'' ''themes.json?role=main'' JUndefined) = Some d"
    "get_prop d ''themes'' = Inr (JArr (t # ts))" "truthy t"
  shows "snd (shopify_get_active_theme v rt cfg) = Inr (text_of (JSON_stringify 2 t))"
  using get_active_theme_resolved [OF assms(1,2), of v] assms(3)
  by (cases v) (simp_all add: js_or_def)

text \<open>
  Claim C3, at an upstream answer with an empty \<open>themes\<close> array. The SSE entry point
  (\<^verbatim>\<open>data.themes[0] || null\<close>) returns the text \<open>null\<close>; the other two
  (\<^verbatim>\<open>data.themes[0]\<close>) hand \<^verbatim>\<open>undefined\<close> to \<^verbatim>\<open>JSON.stringify\<close>, which returns
  \<^verbatim>\<open>undefined\<close>, so their content item has no text at all.
\<close>

theorem get_active_theme_no_themes:
  "snd (shopify_get_active_theme Sse (json_fixture no_themes) (load_config token_only))
     = Inr (JStr ''null'')
   \<and> snd (shopify_get_active_theme Streamable (json_fixture no_themes) (load_config token_only))
     = Inr JUndefined
   \<and> snd (shopify_get_active_theme Stdio (json_fixture no_themes) (load_config token_only))
     = Inr JUndefined"
  by (simp add: shopify_get_active_theme_def snd_shopifyRequest_json js_or_def text_of_def
      JSON_stringify_def no_themes_def)

subsection \<open>Duplicating a theme\<close>

lemma duplicate_body_truthy: "truthy (duplicate_body cfg theme_id new_name)"
  by (simp add: duplicate_body_def)

text \<open>
  Claim C4, as the code has it. \<open>duplicate_theme\<close> issues one POST to \<open>themes.json\<close> whose
  body is the JSON text of \<open>{theme: {name: new_name, role: "unpublished", src:
  https://SHOP/admin/themes/theme_id/duplicate}}\<close>. When the upstream answers with a
  theme, the stdio and streamable-HTTP entry points return \<open>{success: true, id, name}\<close>
  with \<open>id = String(theme.id)\<close>; the SSE entry point returns
  \<open>{success: true, new_theme: {id, name}}\<close>, pretty-printed.
\<close>

theorem duplicate_theme_contract:
  assumes "fst (shopify_duplicate_theme v rt cfg theme_id new_name) = [r]"
  shows "req_method r = ''POST''
       \<and> path r = ''/admin/api/2026-04/themes.json''
       \<and> hostname r = SHOP cfg
       \<and> written r = JSON_stringify 0
           (JObj [(''theme'', JObj
              [(''name'', JStr new_name),
               (''role'', JStr ''unpublished''),
               (''src'', JStr (''https://'' @ SHOP cfg @ ''/admin/themes/'' @ theme_id @ ''/duplicate''))])])
       \<and> written r \<noteq> None
       \<and> (\<forall>d t i n. upstream_json rt r = Some d \<and> get_prop d ''theme'' = Inr t
              \<and> get_prop t ''id'' = Inr i \<and> get_prop t ''name'' = Inr n \<longrightarrow>
            snd (shopify_duplicate_theme v rt cfg theme_id new_name) =
              (if v = Sse
               then Inr (text_of (JSON_stringify 2
                      (JObj [(''success'', JBool True),
                             (''new_theme'', JObj [(''id'', JStr (to_String i)), (''name'', n)])])))
               else Inr (text_of (JSON_stringify 0
                      (JObj [(''success'', JBool True), (''id'', JStr (to_String i)), (''name'', n)])))))"
proof -
  have r: "r = request_options cfg ''POST'' ''themes.json'' (duplicate_body cfg theme_id new_name)"
    using assms by (simp add: shopify_duplicate_theme_def)
  have m: "req_method r = ''POST''" "path r = ''/admin/api/2026-04/themes.json''" "hostname r = SHOP cfg"
    by (simp_all add: r)
  have w: "written r = JSON_stringify 0
           (JObj [(''theme'', JObj
              [(''name'', JStr new_name),
               (''role'', JStr ''unpublished''),
               (''src'', JStr (''https://'' @ SHOP cfg @ ''/admin/themes/'' @ theme_id @ ''/duplicate''))])])"
      "written r \<noteq> None"
    using request_options_body [OF duplicate_body_truthy [of cfg theme_id new_name], of cfg "''POST''" "''themes.json''"]
    unfolding r duplicate_body_def by simp_all
  have out: "\<forall>d t i n. upstream_json rt r = Some d \<and> get_prop d ''theme'' = Inr t
              \<and> get_prop t ''id'' = Inr i \<and> get_prop t ''name'' = Inr n \<longrightarrow>
            snd (shopify_duplicate_theme v rt cfg theme_id new_name) =
              (if v = Sse
               then Inr (text_of (JSON_stringify 2
                      (JObj [(''success'', JBool True),
                             (''new_theme'', JObj [(''id'', JStr (to_String i)), (''name'', n)])])))
               else Inr (text_of (JSON_stringify 0
                      (JObj [(''success'', JBool True), (''id'', JStr (to_String i)), (''name'', n)]))))"
    unfolding r
    by (cases v) (auto simp: shopify_duplicate_theme_def snd_shopifyRequest_json)
  show ?thesis
    using m w out by blast
qed

theorem duplicate_theme_contract_witness:
  "map req_method (fst (shopify_duplicate_theme Stdio (json_fixture created_theme)
        (load_config token_only) ''161795899724'' ''Backup'')) = [''POST'']
   \<and> snd (shopify_duplicate_theme Stdio (json_fixture created_theme)
        (load_config token_only) ''161795899724'' ''Backup'')
     = Inr (text_of (JSON_stringify 0
         (JObj [(''success'', JBool True), (''id'', JStr ''7''), (''name'', JStr ''Backup'')])))"
proof -
  have r: "fst (shopify_duplicate_theme Stdio (json_fixture created_theme)
                  (load_config token_only) ''161795899724'' ''Backup'')
           = [request_options (load_config token_only) ''POST'' ''themes.json''
                (duplicate_body (load_config token_only) ''161795899724'' ''Backup'')]"
    by (simp add: shopify_duplicate_theme_def)
  have u: "upstream_json (json_fixture created_theme)
             (request_options (load_config token_only) ''POST'' ''themes.json''
                (duplicate_body (load_config token_only) ''161795899724'' ''Backup''))
           = Some created_theme"
    by simp
  have t: "get_prop created_theme ''theme'' = Inr (JObj [(''id'', JNum 7), (''name'', JStr ''Backup'')])"
    by (simp add: created_theme_def)
  have i: "get_prop (JObj [(''id'', JNum 7), (''name'', JStr ''Backup'')]) ''id'' = Inr (JNum 7)"
    by simp
  have n: "get_prop (JObj [(''id'', JNum 7), (''name'', JStr ''Backup'')]) ''name'' = Inr (JStr ''Backup'')"
    by simp
  have s: "to_String (JNum 7) = ''7''"
    by (simp add: show_int_def show_nat.simps)
  show ?thesis
    using duplicate_theme_contract [OF r] u t i n s
    by (simp add: r)
qed

text \<open>
  The SSE entry point nests \<open>id\<close> and \<open>name\<close> under \<open>new_theme\<close>: its output is not of
  the shape \<open>{success, id, name}\<close>, compact or pretty-printed.
\<close>

theorem duplicate_theme_sse_shape_counterexample:
  "snd (shopify_duplicate_theme Sse (json_fixture created_theme) (load_config token_only)
          ''161795899724'' ''Backup'')
     = Inr (text_of (JSON_stringify 2
         (JObj [(''success'', JBool True),
                (''new_theme'', JObj [(''id'', JStr ''7''), (''name'', JStr ''Backup'')])])))
   \<and> snd (shopify_duplicate_theme Sse (json_fixture created_theme) (load_config token_only)
          ''161795899724'' ''Backup'')
     \<noteq> Inr (text_of (JSON_stringify 2
         (JObj [(''success'', JBool True), (''id'', JStr ''7''), (''name'', JStr ''Backup'')])))
   \<and> snd (shopify_duplicate_theme Sse (json_fixture created_theme) (load_config token_only)
          ''161795899724'' ''Backup'')
     \<noteq> Inr (text_of (JSON_stringify 0
         (JObj [(''success'', JBool True), (''id'', JStr ''7''), (''name'', JStr ''Backup'')])))"
  by (simp add: shopify_duplicate_theme_def snd_shopifyRequest_json show_int_def show_nat.simps
      text_of_def JSON_stringify_def wrap_def quote_def escape_char_def created_theme_def)

section \<open>Sessions of the SSE entry point\<close>

lemma post_unknown_session:
  assumes "http_method req = ''POST''" "take (length ''/message'') (url req) = ''/message''"
    "sessionId_param (url req) = Some i" "transports i = None" "i \<notin> set Object_prototype_names"
  shows "httpServer sessionId_param cfg transports req new_id
     = (transports, Respond 404 (json_text (JObj [(''error'', JStr ''Session not found'')])))"
  using assms by (simp add: httpServer_def transports_get_def)

lemma post_open_session:
  assumes "http_method req = ''POST''" "take (length ''/message'') (url req) = ''/message''"
    "sessionId_param (url req) = Some i" "transports i = Some t"
  shows "httpServer sessionId_param cfg transports req new_id = (transports, HandlePostMessage t)"
  using assms by (simp add: httpServer_def transports_get_def)

lemma httpServer_keeps_absent:
  assumes "transports i = None" "\<not> (http_method req = ''GET'' \<and> url req = ''/sse'' \<and> new_id = i)"
  shows "fst (httpServer sessionId_param cfg transports req new_id) i = None"
  using assms by (auto simp: httpServer_def Let_def split: slot.splits)

lemma serve_keeps_absent:
  assumes "transports i = None"
    "\<forall>req n. Incoming req n \<in> set es \<longrightarrow> \<not> (http_method req = ''GET'' \<and> url req = ''/sse'' \<and> n = i)"
  shows "fst (serve sessionId_param cfg transports es) i = None"
  using assms
proof (induction es arbitrary: transports)
  case Nil
  then show ?case by simp
next
  case (Cons e es)
  show ?case
  proof (cases e)
    case (Incoming req n)
    have "fst (httpServer sessionId_param cfg transports req n) i = None"
      using Cons.prems Incoming by (intro httpServer_keeps_absent) auto
    then have "fst (serve sessionId_param cfg (fst (httpServer sessionId_param cfg transports req n)) es) i = None"
      using Cons.prems by (intro Cons.IH) auto
    then show ?thesis
      by (simp add: Incoming Let_def)
  next
    case (Closed j)
    have "fst (serve sessionId_param cfg (transports(j := None)) es) i = None"
      using Cons.prems by (intro Cons.IH) auto
    then show ?thesis by (simp add: Closed)
  qed
qed

text \<open>
  Claim C6, at a session id that is the name of a property of \<^verbatim>\<open>Object.prototype\<close>.
  No session is open, yet \<^verbatim>\<open>transports['constructor']\<close> is truthy (the inherited
  function), the handler skips its not-found branch, and calling the missing
  \<^verbatim>\<open>handlePostMessage\<close> throws: no 404 is written.
\<close>

theorem post_inherited_name_throws:
  "httpServer (map_of [(''/message?sessionId=constructor'', ''constructor'')])
     (load_config token_only) Map.empty
     \<lparr> http_method = ''POST'', url = ''/message?sessionId=constructor'' \<rparr> ''0b5e''
   = (Map.empty, Throw (TypeError ''handlePostMessage''))"
  by (simp add: httpServer_def transports_get_def Object_prototype_names_def)

text \<open>
  A closed session's own id is answered 404, as is any id that is neither open nor
  inherited (\<open>post_unknown_session\<close>, \<open>serve_keeps_absent\<close>); an inherited name still
  throws.
\<close>

lemma post_closed_session_inherited_name:
  "snd (serve (map_of [(''/message?sessionId=0b5e'', ''0b5e''), (''/message?sessionId=toString'', ''toString'')])
     (load_config token_only) Map.empty
     [Incoming \<lparr> http_method = ''GET'', url = ''/sse'' \<rparr> ''0b5e'', Closed ''0b5e'',
      Incoming \<lparr> http_method = ''POST'', url = ''/message?sessionId=0b5e'' \<rparr> ''77aa'',
      Incoming \<lparr> http_method = ''POST'', url = ''/message?sessionId=toString'' \<rparr> ''77ab''])
   = [Stream (SSEServerTransport ''0b5e''),
      Respond 404 (json_text (JObj [(''error'', JStr ''Session not found'')])),
      Throw (TypeError ''handlePostMessage'')]"
  by (simp add: httpServer_def transports_get_def Object_prototype_names_def Let_def)

end
